theory Spec2Isabelle
  imports Main
begin

section \<open>The license resource of the NSX-T provider\<close>

text \<open>
  A shallow embedding of \<^verbatim>\<open>nsxt/resource_nsxt_license.go\<close>: the resource's schema and its
  five entry points Create, Read, Update, Delete and Import. Every entry point receives the
  resource instance \<open>d\<close> (a pointer in Go, updated in place) and the provider's meta value
  \<open>m\<close>. In the embedding an entry point returns what it returns in Go, together with the
  instance as it stands when the call ends and the list of remote calls issued, in order.
\<close>

subsection \<open>Field values and the resource instance\<close>

text \<open>
  A field value is a string, a boolean, an integer or an ordered list of sub-mappings.
\<close>

datatype val =
    VString string
  | VBool bool
  | VInt int
  | VList "(string \<times> val) list list"

text \<open>
  \<^verbatim>\<open>schema.ResourceData\<close> belongs to the plugin SDK. It is taken here as the identity string
  and a mapping from field name to value. \<^verbatim>\<open>d.Id()\<close>, \<^verbatim>\<open>d.SetId\<close>, \<^verbatim>\<open>d.Get\<close> and
  \<^verbatim>\<open>d.Set\<close> are the four accessors the file uses; the error \<^verbatim>\<open>d.Set\<close> returns is dropped at
  every call site of the file, so \<open>d_Set\<close> returns the instance only.
\<close>

record ResourceData =
  res_id :: string
  field_values :: "string \<Rightarrow> val option"

definition d_Id :: "ResourceData \<Rightarrow> string" where
  "d_Id d = res_id d"

definition d_SetId :: "ResourceData \<Rightarrow> string \<Rightarrow> ResourceData" where
  "d_SetId d v = d\<lparr>res_id := v\<rparr>"

definition d_Get :: "ResourceData \<Rightarrow> string \<Rightarrow> val option" where
  "d_Get d k = field_values d k"

definition d_Set :: "ResourceData \<Rightarrow> string \<Rightarrow> val \<Rightarrow> ResourceData" where
  "d_Set d k v = d\<lparr>field_values := (field_values d)(k \<mapsto> v)\<rparr>"

subsection \<open>Errors\<close>

text \<open>
  The Go functions return \<^verbatim>\<open>fmt.Errorf\<close> values. Each is kept with its message and sorted
  into the error kinds of the design: \<open>MissingIdentifierError\<close>, \<open>RemoteCallError\<close> (message
  and cause), \<open>UnexpectedStatusError\<close> (message and status code), \<open>FieldCodecError\<close> and
  \<open>MalformedImportKeyError\<close>. \<open>Panic\<close> stands for a Go run-time panic: a failed type
  assertion or the dereference of a nil response.
\<close>

datatype error =
    ClientUnavailable
  | MissingIdentifierError string
  | RemoteCallError string "string option"
  | UnexpectedStatusError string int
  | FieldCodecError string
  | MalformedImportKeyError string
  | Panic string

text \<open>
  Modelled from the spec: \<^verbatim>\<open>resourceNotSupportedError\<close> is declared in another file of the
  provider. It is the error of an operation invoked without a client handle, the kind
  \<open>ClientUnavailable\<close>.
\<close>

definition resourceNotSupportedError :: error where
  "resourceNotSupportedError = ClientUnavailable"

text \<open>
  The type assertions \<^verbatim>\<open>d.Get(k).(string)\<close>, \<^verbatim>\<open>.(bool)\<close> and \<^verbatim>\<open>.(int)\<close>. An unset field reads
  as the zero value of its type; a value of another type makes the assertion panic.
\<close>

definition get_string :: "ResourceData \<Rightarrow> string \<Rightarrow> error + string" where
  "get_string d k =
     (case d_Get d k of
        None \<Rightarrow> Inr []
      | Some (VString s) \<Rightarrow> Inr s
      | Some _ \<Rightarrow> Inl (Panic ''interface conversion: not a string''))"

definition get_bool :: "ResourceData \<Rightarrow> string \<Rightarrow> error + bool" where
  "get_bool d k =
     (case d_Get d k of
        None \<Rightarrow> Inr False
      | Some (VBool b) \<Rightarrow> Inr b
      | Some _ \<Rightarrow> Inl (Panic ''interface conversion: not a bool''))"

definition get_int :: "ResourceData \<Rightarrow> string \<Rightarrow> error + int" where
  "get_int d k =
     (case d_Get d k of
        None \<Rightarrow> Inr 0
      | Some (VInt i) \<Rightarrow> Inr i
      | Some _ \<Rightarrow> Inl (Panic ''interface conversion: not an int''))"

subsection \<open>The remote API\<close>

text \<open>
  \<^verbatim>\<open>manager.StaticRoute\<close> comes from the client library; the record has the members the file
  reads or writes. The element types of its tag list and next-hop list are left open.
\<close>

record ('tag, 'hop) StaticRoute =
  Id_StaticRoute :: string
  Revision :: int
  Description :: string
  DisplayName :: string
  Tags :: "'tag list"
  LogicalRouterId :: string
  Network :: string
  NextHops :: "'hop list"

record response =
  StatusCode :: int

definition StatusOK :: int where
  "StatusOK = 200"

definition StatusNotFound :: int where
  "StatusNotFound = 404"

text \<open>
  The client handle. Each member answers a call with the triple (or pair) the Go method
  returns: the decoded object, the HTTP response (possibly nil) and the error (possibly nil).
\<close>

record ('lic, 'tag, 'hop) client =
  CreateLicense :: "'lic \<times> response option \<times> string option"
  ReadStaticRoute ::
    "string \<Rightarrow> string \<Rightarrow> ('tag, 'hop) StaticRoute \<times> response option \<times> string option"
  UpdateStaticRoute ::
    "string \<Rightarrow> string \<Rightarrow> ('tag, 'hop) StaticRoute \<Rightarrow>
       ('tag, 'hop) StaticRoute \<times> response option \<times> string option"
  DeleteStaticRoute :: "string \<Rightarrow> string \<Rightarrow> response option \<times> string option"

record ('lic, 'tag, 'hop) nsxtClients =
  NsxtClient :: "('lic, 'tag, 'hop) client option"

datatype ('tag, 'hop) call =
    CreateLicenseCall
  | AddStaticRouteCall string "('tag, 'hop) StaticRoute"
  | ReadStaticRouteCall string string
  | UpdateStaticRouteCall string string "('tag, 'hop) StaticRoute"
  | DeleteStaticRouteCall string string

type_synonym ('tag, 'hop) outcome =
  "error option \<times> ResourceData \<times> ('tag, 'hop) call list"

subsection \<open>Codecs of the structured fields\<close>

text \<open>
  The conversions between the flat schema form of a tag list or next-hop list and the API's
  form are parameters of the embedding; encoding a next-hop list may fail.
\<close>

record ('tag, 'hop) codecs =
  tagsToSchema :: "'tag list \<Rightarrow> val"
  tagsFromSchema :: "val option \<Rightarrow> 'tag list"
  nextHopsToSchema :: "'hop list \<Rightarrow> val option"
  nextHopsFromSchema :: "val option \<Rightarrow> 'hop list"

text \<open>
  Modelled from the spec: \<^verbatim>\<open>getTagsFromSchema\<close> is declared in another file of the
  provider. It is the field-level codec that reads the tag set of the instance: it decodes the
  value of the tag field.
\<close>

definition getTagsFromSchema :: "('tag, 'hop) codecs \<Rightarrow> ResourceData \<Rightarrow> 'tag list" where
  "getTagsFromSchema cd d = tagsFromSchema cd (d_Get d ''tags'')"

text \<open>
  Modelled from the spec: \<^verbatim>\<open>setTagsInSchema\<close> is declared in another file of the provider.
  It is the field-level codec that writes the tag set: it stores the encoded list in the tag
  field. Read drops whatever it returns.
\<close>

definition setTagsInSchema ::
  "('tag, 'hop) codecs \<Rightarrow> ResourceData \<Rightarrow> 'tag list \<Rightarrow> ResourceData" where
  "setTagsInSchema cd d tags = d_Set d ''tags'' (tagsToSchema cd tags)"

text \<open>
  Modelled from the spec: \<^verbatim>\<open>getNextHopsFromSchema\<close> is declared in another file of the
  provider. It is the field-level codec that reads the next-hop list of the instance.
\<close>

definition getNextHopsFromSchema :: "('tag, 'hop) codecs \<Rightarrow> ResourceData \<Rightarrow> 'hop list" where
  "getNextHopsFromSchema cd d = nextHopsFromSchema cd (d_Get d ''next_hops'')"

text \<open>
  Modelled from the spec: \<^verbatim>\<open>setNextHopsInSchema\<close> is declared in another file of the
  provider. It is the field-level codec that writes the next-hop list: it stores the encoded
  list in the next-hop field, and a codec failure is returned as an error naming the field,
  the field staying as it was.
\<close>

definition setNextHopsInSchema ::
  "('tag, 'hop) codecs \<Rightarrow> ResourceData \<Rightarrow> 'hop list \<Rightarrow> string option \<times> ResourceData" where
  "setNextHopsInSchema cd d hops =
     (case nextHopsToSchema cd hops of
        None \<Rightarrow> (Some ''next_hops'', d)
      | Some v \<Rightarrow> (None, d_Set d ''next_hops'' v))"

subsection \<open>The declared schema\<close>






subsection \<open>Read\<close>

definition resourceNsxtLicenseRead ::
  "('tag, 'hop) codecs \<Rightarrow> ResourceData \<Rightarrow> ('lic, 'tag, 'hop) nsxtClients \<Rightarrow>
     ('tag, 'hop) outcome" where
  "resourceNsxtLicenseRead cd d m =
     (case NsxtClient m of
        None \<Rightarrow> (Some resourceNotSupportedError, d, [])
      | Some nsxClient \<Rightarrow>
          let ident = d_Id d in
          if ident = [] then
            (Some (MissingIdentifierError ''Error obtaining logical object id''), d, [])
          else
            (case get_string d ''logical_router_id'' of
               Inl p \<Rightarrow> (Some p, d, [])
             | Inr logicalRouterID \<Rightarrow>
                 if logicalRouterID = [] then
                   (Some (MissingIdentifierError
                      ''Error obtaining logical router id during static route read''), d, [])
                 else
                   (case ReadStaticRoute nsxClient logicalRouterID ident of
                      (staticRoute, resp, err) \<Rightarrow>
                        let calls = [ReadStaticRouteCall logicalRouterID ident] in
                        if resp \<noteq> None \<and> map_option StatusCode resp = Some StatusNotFound then
                          (None, d_SetId d [], calls)
                        else if err \<noteq> None then
                          (Some (RemoteCallError ''Error during StaticRoute read'' err), d, calls)
                        else
                          let d1 = d_Set d ''revision'' (VInt (Revision staticRoute));
                              d2 = d_Set d1 ''description'' (VString (Description staticRoute));
                              d3 = d_Set d2 ''display_name'' (VString (DisplayName staticRoute));
                              d4 = setTagsInSchema cd d3 (Tags staticRoute);
                              d5 = d_Set d4 ''logical_router_id''
                                     (VString (LogicalRouterId staticRoute));
                              d6 = d_Set d5 ''network'' (VString (Network staticRoute))
                          in (case setNextHopsInSchema cd d6 (NextHops staticRoute) of
                                (Some e, d7) \<Rightarrow>
                                  (Some (FieldCodecError
                                     (''Error during StaticRoute set in schema: '' @ e)), d7, calls)
                              | (None, d7) \<Rightarrow> (None, d7, calls)))))"

subsection \<open>Update\<close>

definition resourceNsxtLicenseUpdate ::
  "('tag, 'hop) codecs \<Rightarrow> ResourceData \<Rightarrow> ('lic, 'tag, 'hop) nsxtClients \<Rightarrow>
     ('tag, 'hop) outcome" where
  "resourceNsxtLicenseUpdate cd d m =
     (case NsxtClient m of
        None \<Rightarrow> (Some resourceNotSupportedError, d, [])
      | Some nsxClient \<Rightarrow>
          let ident = d_Id d in
          if ident = [] then
            (Some (MissingIdentifierError ''Error obtaining logical object id''), d, [])
          else
            (case get_string d ''logical_router_id'' of
               Inl p \<Rightarrow> (Some p, d, [])
             | Inr logicalRouterID \<Rightarrow>
                 if logicalRouterID = [] then
                   (Some (MissingIdentifierError
                      ''Error obtaining logical router id during static route update''), d, [])
                 else
                   (case get_int d ''revision'' of
                      Inl p \<Rightarrow> (Some p, d, [])
                    | Inr revision \<Rightarrow>
                   (case get_string d ''description'' of
                      Inl p \<Rightarrow> (Some p, d, [])
                    | Inr description \<Rightarrow>
                   (case get_string d ''display_name'' of
                      Inl p \<Rightarrow> (Some p, d, [])
                    | Inr displayName \<Rightarrow>
                   let tags = getTagsFromSchema cd d in
                   (case get_string d ''network'' of
                      Inl p \<Rightarrow> (Some p, d, [])
                    | Inr network \<Rightarrow>
                   let nextHops = getNextHopsFromSchema cd d;
                       staticRoute =
                         \<lparr>Id_StaticRoute = [],
                          Revision = revision,
                          Description = description,
                          DisplayName = displayName,
                          Tags = tags,
                          LogicalRouterId = logicalRouterID,
                          Network = network,
                          NextHops = nextHops\<rparr>;
                       calls = [UpdateStaticRouteCall logicalRouterID ident staticRoute]
                   in (case UpdateStaticRoute nsxClient logicalRouterID ident staticRoute of
                         (_, resp, err) \<Rightarrow>
                           if err \<noteq> None then
                             (Some (RemoteCallError ''Error during StaticRoute update'' err),
                              d, calls)
                           else
                             (case resp of
                                None \<Rightarrow> (Some (Panic ''nil pointer dereference''), d, calls)
                              | Some r \<Rightarrow>
                                  if StatusCode r = StatusNotFound then
                                    (Some (RemoteCallError ''Error during StaticRoute update''
                                       err), d, calls)
                                  else
                                    (case resourceNsxtLicenseRead cd d m of
                                       (e, d', calls') \<Rightarrow> (e, d', calls @ calls'))))))))))"

subsection \<open>Delete\<close>

definition resourceNsxtLicenseDelete ::
  "ResourceData \<Rightarrow> ('lic, 'tag, 'hop) nsxtClients \<Rightarrow> ('tag, 'hop) outcome" where
  "resourceNsxtLicenseDelete d m =
     (case NsxtClient m of
        None \<Rightarrow> (Some resourceNotSupportedError, d, [])
      | Some nsxClient \<Rightarrow>
          let ident = d_Id d in
          if ident = [] then
            (Some (MissingIdentifierError ''Error obtaining logical object id''), d, [])
          else
            (case get_string d ''logical_router_id'' of
               Inl p \<Rightarrow> (Some p, d, [])
             | Inr logicalRouterID \<Rightarrow>
                 if logicalRouterID = [] then
                   (Some (MissingIdentifierError
                      ''Error obtaining logical router id during static route deletion''), d, [])
                 else
                   (case DeleteStaticRoute nsxClient logicalRouterID ident of
                      (resp, err) \<Rightarrow>
                        let calls = [DeleteStaticRouteCall logicalRouterID ident] in
                        if err \<noteq> None then
                          (Some (RemoteCallError ''Error during StaticRoute delete'' err),
                           d, calls)
                        else
                          (case resp of
                             None \<Rightarrow> (Some (Panic ''nil pointer dereference''), d, calls)
                           | Some r \<Rightarrow>
                               if StatusCode r = StatusNotFound then
                                 (None, d_SetId d [], calls)
                               else (None, d, calls)))))"

subsection \<open>Import\<close>

text \<open>
  \<^verbatim>\<open>strings.Split(s, "/")\<close> with a separator of one character: the pieces of \<open>s\<close> between the
  occurrences of the separator, in order. The empty string splits into one empty piece.
\<close>

fun strings_Split :: "string \<Rightarrow> char \<Rightarrow> string list" where
  "strings_Split [] sep = [[]]"
| "strings_Split (c # cs) sep =
     (if c = sep then [] # strings_Split cs sep
      else (case strings_Split cs sep of
              [] \<Rightarrow> [[c]]
            | w # ws \<Rightarrow> (c # w) # ws))"

definition resourceNsxtLicenseImport ::
  "ResourceData \<Rightarrow> ('lic, 'tag, 'hop) nsxtClients \<Rightarrow>
     (error + ResourceData list) \<times> ResourceData \<times> ('tag, 'hop) call list" where
  "resourceNsxtLicenseImport d m =
     (let importID = d_Id d;
          s = strings_Split importID (CHR ''/'')
      in if length s \<noteq> 2 then
           (Inl (MalformedImportKeyError
              ''Please provide <router-id>/<static-route-id> as an input''), d, [])
         else
           let d1 = d_SetId d (s ! 1);
               d2 = d_Set d1 ''logical_router_id'' (VString (s ! 0))
           in (Inr [d2], d2, []))"

subsection \<open>Create\<close>

text \<open>
  The body of Create uses the names \<^verbatim>\<open>logicalRouterID\<close> and \<^verbatim>\<open>staticRoute\<close> without binding
  them: the creation call binds its result to \<^verbatim>\<open>licenseAndEula\<close>, and the line after it is a
  call of \<^verbatim>\<open>AddStaticRoute\<close> whose results are dropped. The embedding takes both names as
  arguments, so what is shown of Create holds whatever they stand for.
\<close>

definition resourceNsxtLicenseCreate ::
  "('tag, 'hop) codecs \<Rightarrow> string \<Rightarrow> ('tag, 'hop) StaticRoute \<Rightarrow>
     ResourceData \<Rightarrow> ('lic, 'tag, 'hop) nsxtClients \<Rightarrow> ('tag, 'hop) outcome" where
  "resourceNsxtLicenseCreate cd logicalRouterID staticRoute d m =
     (case NsxtClient m of
        None \<Rightarrow> (Some resourceNotSupportedError, d, [])
      | Some nsxClient \<Rightarrow>
          (case get_string d ''license_key'' of
             Inl p \<Rightarrow> (Some p, d, [])
           | Inr l \<Rightarrow>
          (case get_bool d ''accept_eula'' of
             Inl p \<Rightarrow> (Some p, d, [])
           | Inr e \<Rightarrow>
          (case CreateLicense nsxClient of
             (licenseAndEula, resp, err) \<Rightarrow>
               let calls = [CreateLicenseCall, AddStaticRouteCall logicalRouterID staticRoute] in
               if err \<noteq> None then
                 (Some (RemoteCallError
                    (''Error during StaticRoute create on router '' @ logicalRouterID) err),
                  d, calls)
               else
                 (case resp of
                    None \<Rightarrow> (Some (Panic ''nil pointer dereference''), d, calls)
                  | Some r \<Rightarrow>
                      if StatusCode r \<noteq> StatusOK then
                        (Some (UnexpectedStatusError
                           (''Unexpected status returned during StaticRoute create on router ''
                              @ logicalRouterID) (StatusCode r)), d, calls)
                      else
                        let d1 = d_SetId d (Id_StaticRoute staticRoute) in
                        (case resourceNsxtLicenseRead cd d1 m of
                           (e', d', calls') \<Rightarrow> (e', d', calls @ calls')))))))"

subsection \<open>Reading an outcome\<close>




subsection \<open>A mock API for concrete runs\<close>

text \<open>
  Concrete instances, a client whose four methods give fixed answers, and codecs over tags
  as pairs of scope and tag and next hops as addresses. An empty address does not encode.
\<close>

definition no_fields :: "string \<Rightarrow> val option" where
  "no_fields = (\<lambda>k. None)"

definition instance_of :: "string \<Rightarrow> string \<Rightarrow> ResourceData" where
  "instance_of ident parent =
     \<lparr>res_id = ident, field_values = no_fields(''logical_router_id'' \<mapsto> VString parent)\<rparr>"

definition import_request :: "string \<Rightarrow> ResourceData" where
  "import_request key = \<lparr>res_id = key, field_values = no_fields\<rparr>"

definition license_request :: ResourceData where
  "license_request =
     \<lparr>res_id = [],
      field_values = no_fields(''license_key'' \<mapsto> VString ''AAAAA-BBBBB'',
                               ''accept_eula'' \<mapsto> VBool True)\<rparr>"

definition http_status :: "int \<Rightarrow> response option" where
  "http_status n = Some \<lparr>StatusCode = n\<rparr>"

definition mock_route :: "string \<Rightarrow> (string \<times> string, string) StaticRoute" where
  "mock_route ident =
     \<lparr>Id_StaticRoute = ident,
      Revision = 3,
      Description = ''uplink'',
      DisplayName = ''route'',
      Tags = [(''color'', ''blue'')],
      LogicalRouterId = ''router1'',
      Network = ''10.0.0.0/24'',
      NextHops = [''10.0.0.1'']\<rparr>"

definition mock_client ::
  "response option \<times> string option \<Rightarrow> response option \<times> string option \<Rightarrow>
   response option \<times> string option \<Rightarrow> response option \<times> string option \<Rightarrow>
     (string, string \<times> string, string) client" where
  "mock_client created fetched updated deleted =
     \<lparr>CreateLicense = (''license-1'', created),
      ReadStaticRoute = (\<lambda>lr i. (mock_route i, fetched)),
      UpdateStaticRoute = (\<lambda>lr i p. (p, updated)),
      DeleteStaticRoute = (\<lambda>lr i. deleted)\<rparr>"

definition with_client ::
  "(string, string \<times> string, string) client \<Rightarrow>
     (string, string \<times> string, string) nsxtClients" where
  "with_client c = \<lparr>NsxtClient = Some c\<rparr>"

definition no_client :: "(string, string \<times> string, string) nsxtClients" where
  "no_client = \<lparr>NsxtClient = None\<rparr>"

definition mock_codecs :: "(string \<times> string, string) codecs" where
  "mock_codecs =
     \<lparr>tagsToSchema =
        (\<lambda>ts. VList (map (\<lambda>(s, t). [(''scope'', VString s), (''tag'', VString t)]) ts)),
      tagsFromSchema = (\<lambda>v. []),
      nextHopsToSchema =
        (\<lambda>hs. if [] \<in> set hs then None
              else Some (VList (map (\<lambda>h. [(''ip_address'', VString h)]) hs))),
      nextHopsFromSchema = (\<lambda>v. [])\<rparr>"

definition updatable_instance :: ResourceData where
  "updatable_instance =
     \<lparr>res_id = ''route9'',
      field_values = no_fields(''logical_router_id'' \<mapsto> VString ''router1'',
                               ''revision'' \<mapsto> VInt 3,
                               ''description'' \<mapsto> VString ''uplink'',
                               ''display_name'' \<mapsto> VString ''route'',
                               ''network'' \<mapsto> VString ''10.0.0.0/24'')\<rparr>"

definition updatable_payload :: "(string \<times> string, string) StaticRoute" where
  "updatable_payload =
     \<lparr>Id_StaticRoute = [], Revision = 3, Description = ''uplink'', DisplayName = ''route'',
      Tags = [], LogicalRouterId = ''router1'', Network = ''10.0.0.0/24'', NextHops = []\<rparr>"

definition fetched_fields :: "string \<Rightarrow> val option" where
  "fetched_fields =
     no_fields(''revision'' \<mapsto> VInt 3,
               ''description'' \<mapsto> VString ''uplink'',
               ''display_name'' \<mapsto> VString ''route'',
               ''tags'' \<mapsto> VList [[(''scope'', VString ''color''), (''tag'', VString ''blue'')]],
               ''logical_router_id'' \<mapsto> VString ''router1'',
               ''network'' \<mapsto> VString ''10.0.0.0/24'',
               ''next_hops'' \<mapsto> VList [[(''ip_address'', VString ''10.0.0.1'')]])"



section \<open>Properties\<close>

lemmas op_defs =
  Let_def d_Id_def d_SetId_def d_Set_def d_Get_def resourceNotSupportedError_def

lemmas mock_defs =
  with_client_def no_client_def mock_client_def instance_of_def import_request_def
  license_request_def http_status_def mock_route_def mock_codecs_def no_fields_def
  StatusNotFound_def StatusOK_def get_string_def get_int_def get_bool_def

subsection \<open>Splitting the import key\<close>









subsection \<open>Import\<close>




subsection \<open>Not found\<close>

text \<open>
  Claim C2. With a client, a non-empty ID and a non-empty parent identifier, a fetch that
  answers HTTP 404 makes Read return no error, with the ID cleared and nothing else of the
  instance changed, whatever error value came with the response.
\<close>

theorem Read_not_found:
  assumes "NsxtClient m = Some c"
    and "res_id d \<noteq> []"
    and "get_string d ''logical_router_id'' = Inr lr"
    and "lr \<noteq> []"
    and "ReadStaticRoute c lr (res_id d) = (sr, Some r, err)"
    and "StatusCode r = StatusNotFound"
  shows "resourceNsxtLicenseRead cd d m =
           (None, d\<lparr>res_id := []\<rparr>, [ReadStaticRouteCall lr (res_id d)])"
  using assms by (simp add: resourceNsxtLicenseRead_def op_defs)

theorem Read_not_found_witness:
  "NsxtClient (with_client (mock_client (None, None) (http_status 404, Some ''404 Not Found'')
       (None, None) (None, None))) =
     Some (mock_client (None, None) (http_status 404, Some ''404 Not Found'')
       (None, None) (None, None))
   \<and> res_id (instance_of ''route9'' ''router1'') \<noteq> []
   \<and> get_string (instance_of ''route9'' ''router1'') ''logical_router_id'' = Inr ''router1''
   \<and> resourceNsxtLicenseRead mock_codecs (instance_of ''route9'' ''router1'')
       (with_client (mock_client (None, None) (http_status 404, Some ''404 Not Found'')
          (None, None) (None, None))) =
     (None, instance_of [] ''router1'', [ReadStaticRouteCall ''router1'' ''route9''])"
  using Read_not_found [of
      "with_client (mock_client (None, None) (http_status 404, Some ''404 Not Found'')
         (None, None) (None, None))"
      "mock_client (None, None) (http_status 404, Some ''404 Not Found'') (None, None)
         (None, None)"
      "instance_of ''route9'' ''router1''" "''router1''" "mock_route ''route9''"
      "\<lparr>StatusCode = 404\<rparr>" "Some ''404 Not Found''" mock_codecs]
  by (simp add: mock_defs d_Get_def)

text \<open>
  Claim C3, at a delete call that answers 404 together with an error value: Delete tests the
  error before the status, returns \<open>RemoteCallError\<close> and keeps the ID, where Read on the
  same answer clears it.
\<close>

theorem Delete_not_found_after_error:
  "resourceNsxtLicenseDelete (instance_of ''route9'' ''router1'')
     (with_client (mock_client (None, None) (None, None) (None, None)
        (http_status 404, Some ''404 Not Found''))) =
   (Some (RemoteCallError ''Error during StaticRoute delete'' (Some ''404 Not Found'')),
    instance_of ''route9'' ''router1'',
    [DeleteStaticRouteCall ''router1'' ''route9''])"
  by (simp add: resourceNsxtLicenseDelete_def op_defs mock_defs)

text \<open>
  When the 404 answer comes with no error value, Delete clears the ID and returns no error.
\<close>

lemma Delete_not_found_no_error:
  assumes "NsxtClient m = Some c"
    and "res_id d \<noteq> []"
    and "get_string d ''logical_router_id'' = Inr lr"
    and "lr \<noteq> []"
    and "DeleteStaticRoute c lr (res_id d) = (Some r, None)"
    and "StatusCode r = StatusNotFound"
  shows "resourceNsxtLicenseDelete d m =
           (None, d\<lparr>res_id := []\<rparr>, [DeleteStaticRouteCall lr (res_id d)])"
  using assms by (simp add: resourceNsxtLicenseDelete_def op_defs)

text \<open>
  Claim C4. With a client, a non-empty ID, a non-empty parent identifier and mutable fields
  of their declared types, an update call that answers HTTP 404 makes Update fail with
  \<open>RemoteCallError\<close>; the instance, its ID included, is unchanged and no Read follows.
\<close>

theorem Update_not_found:
  assumes "NsxtClient m = Some c"
    and "res_id d \<noteq> []"
    and "get_string d ''logical_router_id'' = Inr lr"
    and "lr \<noteq> []"
    and "get_int d ''revision'' = Inr revision"
    and "get_string d ''description'' = Inr description"
    and "get_string d ''display_name'' = Inr displayName"
    and "get_string d ''network'' = Inr network"
    and "payload = \<lparr>Id_StaticRoute = [], Revision = revision, Description = description,
           DisplayName = displayName, Tags = getTagsFromSchema cd d, LogicalRouterId = lr,
           Network = network, NextHops = getNextHopsFromSchema cd d\<rparr>"
    and "UpdateStaticRoute c lr (res_id d) payload = (updated, Some r, err)"
    and "StatusCode r = StatusNotFound"
  shows "resourceNsxtLicenseUpdate cd d m =
           (Some (RemoteCallError ''Error during StaticRoute update'' err), d,
            [UpdateStaticRouteCall lr (res_id d) payload])"
  using assms by (simp add: resourceNsxtLicenseUpdate_def op_defs)

theorem Update_not_found_witness:
  "NsxtClient (with_client (mock_client (None, None) (None, None) (http_status 404, None)
       (None, None))) =
     Some (mock_client (None, None) (None, None) (http_status 404, None) (None, None))
   \<and> res_id updatable_instance \<noteq> []
   \<and> get_string updatable_instance ''logical_router_id'' = Inr ''router1''
   \<and> get_int updatable_instance ''revision'' = Inr 3
   \<and> get_string updatable_instance ''description'' = Inr ''uplink''
   \<and> get_string updatable_instance ''display_name'' = Inr ''route''
   \<and> get_string updatable_instance ''network'' = Inr ''10.0.0.0/24''
   \<and> resourceNsxtLicenseUpdate mock_codecs updatable_instance
       (with_client (mock_client (None, None) (None, None) (http_status 404, None)
          (None, None))) =
     (Some (RemoteCallError ''Error during StaticRoute update'' None), updatable_instance,
      [UpdateStaticRouteCall ''router1'' ''route9'' updatable_payload])"
  using Update_not_found [of
      "with_client (mock_client (None, None) (None, None) (http_status 404, None) (None, None))"
      "mock_client (None, None) (None, None) (http_status 404, None) (None, None)"
      updatable_instance "''router1''" 3 "''uplink''" "''route''" "''10.0.0.0/24''"
      updatable_payload mock_codecs updatable_payload "\<lparr>StatusCode = 404\<rparr>" None]
  by (simp add: mock_defs d_Get_def updatable_instance_def updatable_payload_def
      getTagsFromSchema_def getNextHopsFromSchema_def)

subsection \<open>The client handle\<close>

text \<open>
  Claim C5, as the code has it. Create, Read, Update and Delete, invoked without a client
  handle, fail with \<open>ClientUnavailable\<close>; the instance is unchanged and no remote call is
  made. Import is not among them: it never consults the handle.
\<close>

theorem no_client_is_ClientUnavailable:
  assumes "NsxtClient m = None"
  shows "resourceNsxtLicenseCreate cd logicalRouterID staticRoute d m =
           (Some ClientUnavailable, d, [])
       \<and> resourceNsxtLicenseRead cd d m = (Some ClientUnavailable, d, [])
       \<and> resourceNsxtLicenseUpdate cd d m = (Some ClientUnavailable, d, [])
       \<and> resourceNsxtLicenseDelete d m = (Some ClientUnavailable, d, [])"
  using assms
  by (simp add: resourceNsxtLicenseCreate_def resourceNsxtLicenseRead_def
      resourceNsxtLicenseUpdate_def resourceNsxtLicenseDelete_def op_defs)

theorem no_client_is_ClientUnavailable_witness:
  "NsxtClient no_client = None
   \<and> resourceNsxtLicenseCreate mock_codecs ''router1'' (mock_route ''route9'') license_request
       no_client = (Some ClientUnavailable, license_request, [])
   \<and> resourceNsxtLicenseRead mock_codecs (instance_of ''route9'' ''router1'') no_client =
       (Some ClientUnavailable, instance_of ''route9'' ''router1'', [])
   \<and> resourceNsxtLicenseUpdate mock_codecs (instance_of ''route9'' ''router1'') no_client =
       (Some ClientUnavailable, instance_of ''route9'' ''router1'', [])
   \<and> resourceNsxtLicenseDelete (instance_of ''route9'' ''router1'') no_client =
       (Some ClientUnavailable, instance_of ''route9'' ''router1'', [])"
  using no_client_is_ClientUnavailable [of no_client mock_codecs "''router1''"
      "mock_route ''route9''" license_request]
    no_client_is_ClientUnavailable [of no_client mock_codecs "''router1''"
      "mock_route ''route9''" "instance_of ''route9'' ''router1''"]
  by (simp add: no_client_def)

text \<open>
  Import of a well-formed key without a client handle succeeds.
\<close>

theorem Import_without_client_counterexample:
  "NsxtClient no_client = None \<and>
   resourceNsxtLicenseImport (import_request ''router1/route9'') no_client =
     (Inr [instance_of ''route9'' ''router1''], instance_of ''route9'' ''router1'', [])"
  by (simp add: resourceNsxtLicenseImport_def op_defs mock_defs)

subsection \<open>Missing identifiers\<close>



subsection \<open>Case analyses of the entry points\<close>








subsection \<open>Create\<close>

text \<open>
  After a creation call that returns status OK and no error, Create stores the ID of
  \<open>staticRoute\<close> and returns what Read returns on the instance so changed; on another status
  it fails with \<open>UnexpectedStatusError\<close>, which carries the status code and the router in
  its message.
\<close>

lemma Create_ok:
  assumes "NsxtClient m = Some c"
    and "get_string d ''license_key'' = Inr l"
    and "get_bool d ''accept_eula'' = Inr e"
    and "CreateLicense c = (licenseAndEula, Some r, None)"
    and "StatusCode r = StatusOK"
  shows "resourceNsxtLicenseCreate cd lr sr d m =
     (case resourceNsxtLicenseRead cd (d\<lparr>res_id := Id_StaticRoute sr\<rparr>) m of
        (e', d', calls') \<Rightarrow>
          (e', d', [CreateLicenseCall, AddStaticRouteCall lr sr] @ calls'))"
  using assms by (simp add: resourceNsxtLicenseCreate_def op_defs)

lemma Create_unexpected_status:
  assumes "NsxtClient m = Some c"
    and "get_string d ''license_key'' = Inr l"
    and "get_bool d ''accept_eula'' = Inr e"
    and "CreateLicense c = (licenseAndEula, Some r, None)"
    and "StatusCode r \<noteq> StatusOK"
  shows "resourceNsxtLicenseCreate cd lr sr d m =
     (Some (UnexpectedStatusError
        (''Unexpected status returned during StaticRoute create on router '' @ lr)
        (StatusCode r)), d, [CreateLicenseCall, AddStaticRouteCall lr sr])"
  using assms by (simp add: resourceNsxtLicenseCreate_def op_defs)

text \<open>
  The object that the creation call returns has no effect on what Create does.
\<close>

lemma Create_ignores_created_object:
  "resourceNsxtLicenseCreate cd lr sr d
     \<lparr>NsxtClient = Some (c\<lparr>CreateLicense := (lic1, resp, err)\<rparr>)\<rparr> =
   resourceNsxtLicenseCreate cd lr sr d
     \<lparr>NsxtClient = Some (c\<lparr>CreateLicense := (lic2, resp, err)\<rparr>)\<rparr>"
proof -
  have "resourceNsxtLicenseRead cd d' \<lparr>NsxtClient = Some (c\<lparr>CreateLicense := (lic1, resp, err)\<rparr>)\<rparr>
      = resourceNsxtLicenseRead cd d' \<lparr>NsxtClient = Some (c\<lparr>CreateLicense := (lic2, resp, err)\<rparr>)\<rparr>"
    for d'
    by (simp add: resourceNsxtLicenseRead_def cong: if_cong sum.case_cong)
  then show ?thesis
    by (simp add: resourceNsxtLicenseCreate_def cong: if_cong sum.case_cong option.case_cong)
qed

text \<open>
  Claim C7, at a creation call that succeeds with status OK and returns the object
  \<open>license-1\<close>: the ID that Create stores is that of \<open>staticRoute\<close>, here \<open>stale\<close>, and not
  one taken from the created object. The Read that follows fills the fields.
\<close>

theorem Create_stores_unbound_id:
  "fst (CreateLicense (mock_client (http_status 200, None) (http_status 200, None)
      (None, None) (None, None))) = ''license-1''
   \<and> resourceNsxtLicenseCreate mock_codecs ''router1'' (mock_route ''stale'')
       (instance_of [] ''router1'')
       (with_client (mock_client (http_status 200, None) (http_status 200, None)
          (None, None) (None, None))) =
     (None, \<lparr>res_id = ''stale'', field_values = fetched_fields\<rparr>,
      [CreateLicenseCall, AddStaticRouteCall ''router1'' (mock_route ''stale''),
       ReadStaticRouteCall ''router1'' ''stale''])"
  by (simp add: resourceNsxtLicenseCreate_def resourceNsxtLicenseRead_def op_defs mock_defs
      setNextHopsInSchema_def setTagsInSchema_def fetched_fields_def)

subsection \<open>Failure paths and the ID\<close>











subsection \<open>The update payload\<close>



subsection \<open>The fields Read writes\<close>



end
